theory Spec2Isabelle
  imports Main
begin

section \<open>The syntax tree\<close>

text \<open>
  The codemod \<^verbatim>\<open>src/transformers/tape.js\<close> works on the ESTree that jscodeshift hands it.
  A node is a tagged object; the constructors below are the node kinds whose fields the
  transform reads or writes by name, with exactly those fields (plus the children the
  traversal walks through). Every other node kind is \<open>Other\<close>: its type tag and its child
  nodes in traversal order.

  Two constructors stand for slot values that are not nodes: \<open>RawString\<close> is a JavaScript
  string stored where a node is expected (\<^verbatim>\<open>p.node.callee = 'console.log'\<close>), and \<open>Absent\<close>
  is a slot that holds no value (\<^verbatim>\<open>null\<close>, or a field deleted by \<^verbatim>\<open>prune\<close>).
\<close>

datatype literal =
    LString string
  | LBoolean bool
  | LNumber int
  | LNull
  | LRegExp string

datatype node =
    Identifier string
  | Literal literal
  | CallExpression node "node list"
  | MemberExpression node node
  | Function string node "node list" node bool
  | ObjectExpression "node list"
  | Property node node
  | ExpressionStatement node
  | BlockStatement "node list"
  | VariableDeclaration "node list"
  | VariableDeclarator node node
  | ImportDeclaration "node list" node
  | Program "node list"
  | RawString string
  | Absent
  | Other string "node list"

text \<open>
  \<open>CallExpression callee arguments\<close>, \<open>MemberExpression object property\<close>,
  \<open>Function type id params body expression\<close> (the type tag is
  \<^verbatim>\<open>ArrowFunctionExpression\<close>, \<^verbatim>\<open>FunctionExpression\<close> or \<^verbatim>\<open>FunctionDeclaration\<close>),
  \<open>ObjectExpression properties\<close>, \<open>Property key value\<close>,
  \<open>VariableDeclarator id init\<close>, \<open>ImportDeclaration specifiers source\<close>,
  \<open>Program body\<close>.
\<close>

datatype error =
    TypeError
  | BuilderError
  | ParseError

text \<open>
  \<open>TypeError\<close> is JavaScript's error for reading a property of \<^verbatim>\<open>undefined\<close>;
  \<open>BuilderError\<close> is the assertion failure of an ast-types builder that is handed a value
  which is not a node of the expected kind; \<open>ParseError\<close> is the parser's.
\<close>

text \<open>\<^verbatim>\<open>x.name\<close> of a node: only an identifier has the field.\<close>

fun name_of :: "node \<Rightarrow> string option" where
  "name_of (Identifier x) = Some x"
| "name_of _ = None"

text \<open>\<^verbatim>\<open>x.params\<close>: only a function has the field.\<close>

fun params_of :: "node \<Rightarrow> node list option" where
  "params_of (Function _ _ ps _ _) = Some ps"
| "params_of _ = None"

text \<open>A slot value that is a node object (what the builders' field checks ask for).\<close>

fun is_node :: "node \<Rightarrow> bool" where
  "is_node (RawString _) = False"
| "is_node Absent = False"
| "is_node _ = True"

text \<open>\<^verbatim>\<open>args[i]\<close>: JavaScript gives \<^verbatim>\<open>undefined\<close> past the end of the array.\<close>

definition nth_arg :: "node list \<Rightarrow> nat \<Rightarrow> node option" where
  "nth_arg args i = (if i < length args then Some (args ! i) else None)"

subsection \<open>Builders\<close>

text \<open>
  \<^verbatim>\<open>j.identifier\<close>, \<^verbatim>\<open>j.callExpression\<close>, \<^verbatim>\<open>j.memberExpression\<close> and
  \<^verbatim>\<open>j.arrowFunctionExpression\<close>. A builder checks its fields: the argument list of
  \<^verbatim>\<open>j.callExpression\<close> must hold nodes, so \<^verbatim>\<open>[undefined]\<close> is refused, and so is a
  function body that is missing.
\<close>

definition j_identifier :: "string \<Rightarrow> node" where
  "j_identifier x = Identifier x"

fun accepted :: "node option \<Rightarrow> bool" where
  "accepted None = False"
| "accepted (Some a) = is_node a"

definition j_callExpression :: "node \<Rightarrow> node option list \<Rightarrow> error + node" where
  "j_callExpression callee args =
     (if list_all accepted args then Inr (CallExpression callee (map the args))
      else Inl BuilderError)"

definition j_memberExpression :: "node \<Rightarrow> node \<Rightarrow> node" where
  "j_memberExpression obj prop = MemberExpression obj prop"

definition j_arrowFunctionExpression :: "node list \<Rightarrow> node \<Rightarrow> bool \<Rightarrow> error + node" where
  "j_arrowFunctionExpression ps body expr =
     (if is_node body then Inr (Function ''ArrowFunctionExpression'' Absent ps body expr)
      else Inl BuilderError)"

section \<open>Rule tables\<close>

definition SPECIAL_THROWS_CASE :: string where
  "SPECIAL_THROWS_CASE = ''(special throws case)''"

definition tapeToJestExpect :: "(string \<times> string) list" where
  "tapeToJestExpect =
    [(''ok'', ''toBeTruthy''),
     (''true'', ''toBeTruthy''),
     (''assert'', ''toBeTruthy''),
     (''notOk'', ''toBeFalsy''),
     (''false'', ''toBeFalsy''),
     (''notok'', ''toBeFalsy''),
     (''equal'', ''toBe''),
     (''equals'', ''toBe''),
     (''isEqual'', ''toBe''),
     (''strictEqual'', ''toBe''),
     (''strictEquals'', ''toBe''),
     (''notEqual'', ''not.toBe''),
     (''notStrictEqual'', ''not.toBe''),
     (''notStrictEquals'', ''not.toBe''),
     (''isNotEqual'', ''not.toBe''),
     (''doesNotEqual'', ''not.toBe''),
     (''isInequal'', ''not.toBe''),
     (''deepEqual'', ''toEqual''),
     (''isEquivalent'', ''toEqual''),
     (''same'', ''toEqual''),
     (''notDeepEqual'', ''not.toEqual''),
     (''notEquivalent'', ''not.toEqual''),
     (''notDeeply'', ''not.toEqual''),
     (''notSame'', ''not.toEqual''),
     (''isNotDeepEqual'', ''not.toEqual''),
     (''isNotEquivalent'', ''not.toEqual''),
     (''isInequivalent'', ''not.toEqual''),
     (''throws'', SPECIAL_THROWS_CASE),
     (''doesNotThrow'', SPECIAL_THROWS_CASE)]"

definition unsupportedTProperties :: "string list" where
  "unsupportedTProperties =
    [''timeoutAfter'', ''deepLooseEqual'', ''looseEqual'', ''looseEquals'',
     ''notDeepLooseEqual'', ''notLooseEqual'', ''notLooseEquals'',
     ''fail'', ''pass'', ''error'', ''ifErr'', ''iferror'', ''skip'']"

definition unsupportedTestFunctionProperties :: "string list" where
  "unsupportedTestFunctionProperties = [''createStream'', ''onFinish'']"

definition PROP_WITH_SECONDS_ARGS :: "string list" where
  "PROP_WITH_SECONDS_ARGS = [''toBe'', ''not.toBe'', ''toEqual'', ''not.toEqual'']"

section \<open>The assertion rewriter\<close>

text \<open>
  \<^verbatim>\<open>args[1].type === 'Literal' && typeof args[1].value === 'string'\<close>.
\<close>

fun isStringLiteral :: "node \<Rightarrow> bool" where
  "isStringLiteral (Literal (LString _)) = True"
| "isStringLiteral _ = False"

text \<open>
  The node filter of \<^verbatim>\<open>updateAssertions\<close>: a call whose callee has an \<^verbatim>\<open>object\<close> named
  \<^verbatim>\<open>t\<close> and a \<^verbatim>\<open>property\<close> whose name is a key of the mapping table.
\<close>

fun isAssertionCall :: "node \<Rightarrow> bool" where
  "isAssertionCall (CallExpression (MemberExpression (Identifier obj) (Identifier prop)) args) =
     (obj = ''t'' \<and> prop \<in> set (map fst tapeToJestExpect))"
| "isAssertionCall _ = False"

text \<open>
  The body of the \<^verbatim>\<open>forEach\<close> callback of \<^verbatim>\<open>updateAssertions\<close> (lines 148-190), as a
  function of the old member name and the argument list of the matched call. Its value is
  the expression that replaces the call.
\<close>

definition newCondition :: "string \<Rightarrow> node list \<Rightarrow> error + node" where
  "newCondition oldPropertyName args =
     (let newPropertyName = map_of tapeToJestExpect oldPropertyName in
      if newPropertyName = Some SPECIAL_THROWS_CASE then
        (let secondArgString = (length args = 2 \<and> isStringLiteral (args ! 1));
             noErrorType = (length args = 1 \<or> secondArgString)
         in if noErrorType then
              j_callExpression
                (j_identifier (if oldPropertyName = ''throws'' then ''toThrow'' else ''not.toThrow''))
                []
            else j_callExpression (j_identifier ''toThrowError'') [nth_arg args 1])
      else
        (let hasSecondArgument =
               (case newPropertyName of
                  None \<Rightarrow> False
                | Some new \<Rightarrow> new \<in> set PROP_WITH_SECONDS_ARGS);
             conditionArgs = (if hasSecondArgument then [nth_arg args 1] else [])
         in case newPropertyName of
              None \<Rightarrow> Inl BuilderError
            | Some new \<Rightarrow> j_callExpression (j_identifier new) conditionArgs))"

definition newExpression :: "string \<Rightarrow> node list \<Rightarrow> error + node" where
  "newExpression oldPropertyName args =
     (case newCondition oldPropertyName args of
        Inl e \<Rightarrow> Inl e
      | Inr cond \<Rightarrow>
          (case j_callExpression (j_identifier ''expect'') [nth_arg args 0] of
             Inl e \<Rightarrow> Inl e
           | Inr wrapped \<Rightarrow> Inr (j_memberExpression wrapped cond)))"

fun updateAssertion :: "node \<Rightarrow> error + node" where
  "updateAssertion (CallExpression (MemberExpression obj (Identifier oldPropertyName)) args) =
     newExpression oldPropertyName args"
| "updateAssertion _ = Inl TypeError"

section \<open>Traversal\<close>

text \<open>
  \<^verbatim>\<open>ast.find(j.CallExpression, filter)\<close> collects, in pre-order, the nodes that pass the
  filter. The filters of this file are written as predicates on nodes; each of them holds
  of call expressions only.
\<close>

fun find :: "(node \<Rightarrow> bool) \<Rightarrow> node \<Rightarrow> node list"
  and find_list :: "(node \<Rightarrow> bool) \<Rightarrow> node list \<Rightarrow> node list" where
  "find P (Identifier x) = (if P (Identifier x) then [Identifier x] else [])"
| "find P (Literal l) = (if P (Literal l) then [Literal l] else [])"
| "find P (CallExpression c as) =
     (if P (CallExpression c as) then [CallExpression c as] else []) @ find P c @ find_list P as"
| "find P (MemberExpression ob pr) =
     (if P (MemberExpression ob pr) then [MemberExpression ob pr] else []) @ find P ob @ find P pr"
| "find P (Function ty i ps b e) =
     (if P (Function ty i ps b e) then [Function ty i ps b e] else [])
       @ find P i @ find_list P ps @ find P b"
| "find P (ObjectExpression ps) =
     (if P (ObjectExpression ps) then [ObjectExpression ps] else []) @ find_list P ps"
| "find P (Property k v) =
     (if P (Property k v) then [Property k v] else []) @ find P k @ find P v"
| "find P (ExpressionStatement e) =
     (if P (ExpressionStatement e) then [ExpressionStatement e] else []) @ find P e"
| "find P (BlockStatement ss) =
     (if P (BlockStatement ss) then [BlockStatement ss] else []) @ find_list P ss"
| "find P (VariableDeclaration ds) =
     (if P (VariableDeclaration ds) then [VariableDeclaration ds] else []) @ find_list P ds"
| "find P (VariableDeclarator i e) =
     (if P (VariableDeclarator i e) then [VariableDeclarator i e] else []) @ find P i @ find P e"
| "find P (ImportDeclaration ss src) =
     (if P (ImportDeclaration ss src) then [ImportDeclaration ss src] else [])
       @ find_list P ss @ find P src"
| "find P (Program ss) = (if P (Program ss) then [Program ss] else []) @ find_list P ss"
| "find P (RawString s) = []"
| "find P Absent = []"
| "find P (Other ty cs) = (if P (Other ty cs) then [Other ty cs] else []) @ find_list P cs"
| "find_list P [] = []"
| "find_list P (n # ns) = find P n @ find_list P ns"

section \<open>Warnings\<close>

text \<open>
  \<^verbatim>\<open>logWarning(msg, node)\<close> hands the message to the logger. The model collects the
  messages of a run in the order in which they are logged.
\<close>

definition dquote :: string where
  "dquote = [CHR 0x22]"

definition quoted :: "string \<Rightarrow> string" where
  "quoted s = dquote @ s @ dquote"

subsection \<open>detectUnsupportedNaming\<close>

fun isTestMemberCall :: "string \<Rightarrow> node \<Rightarrow> bool" where
  "isTestMemberCall testFunctionName (CallExpression (MemberExpression (Identifier obj) pr) args) =
     (obj = testFunctionName)"
| "isTestMemberCall testFunctionName _ = False"

fun isTestCall :: "string \<Rightarrow> node \<Rightarrow> bool" where
  "isTestCall testFunctionName (CallExpression (Identifier callee) args) =
     (callee = testFunctionName)"
| "isTestCall testFunctionName _ = False"

text \<open>The text that a template string gives for a name that may be \<^verbatim>\<open>undefined\<close>.\<close>

fun shown :: "string option \<Rightarrow> string" where
  "shown None = ''undefined''"
| "shown (Some s) = s"

fun validateTestArgument :: "node \<Rightarrow> string list" where
  "validateTestArgument (CallExpression callee args) =
     (case nth_arg args (length args - 1) of
        None \<Rightarrow> []
      | Some lastArg \<Rightarrow>
          (case params_of lastArg of
             None \<Rightarrow> []
           | Some [] \<Rightarrow> []
           | Some (p0 # ps) \<Rightarrow>
               if is_node p0 \<and> name_of p0 \<noteq> Some ''t''
               then [''argument to test function should be named '' @ quoted ''t''
                       @ '' not '' @ quoted (shown (name_of p0))]
               else []))"
| "validateTestArgument _ = []"

definition detectUnsupportedNaming :: "string \<Rightarrow> node \<Rightarrow> string list" where
  "detectUnsupportedNaming testFunctionName ast =
     concat (map validateTestArgument (find (isTestMemberCall testFunctionName) ast))
       @ concat (map validateTestArgument (find (isTestCall testFunctionName) ast))"

subsection \<open>detectUnsupportedFeatures\<close>

definition toLowerChar :: "char \<Rightarrow> char" where
  "toLowerChar c =
     (case map_of (zip ''ABCDEFGHIJKLMNOPQRSTUVWXYZ'' ''abcdefghijklmnopqrstuvwxyz'') c of
        None \<Rightarrow> c
      | Some l \<Rightarrow> l)"

definition toLowerCase :: "string \<Rightarrow> string" where
  "toLowerCase s = map toLowerChar s"

fun startsWith :: "string \<Rightarrow> string \<Rightarrow> bool" where
  "startsWith s [] = True"
| "startsWith [] (x # xs) = False"
| "startsWith (y # ys) (x # xs) = (x = y \<and> startsWith ys xs)"

text \<open>\<^verbatim>\<open>s.indexOf(sub) >= 0\<close>.\<close>

fun contains :: "string \<Rightarrow> string \<Rightarrow> bool" where
  "contains [] sub = startsWith [] sub"
| "contains (y # ys) sub = (startsWith (y # ys) sub \<or> contains ys sub)"

fun isUnsupportedTCall :: "node \<Rightarrow> bool" where
  "isUnsupportedTCall (CallExpression (MemberExpression (Identifier obj) (Identifier prop)) args) =
     (obj = ''t'' \<and> prop \<in> set unsupportedTProperties)"
| "isUnsupportedTCall _ = False"

fun isUnsupportedTestFunctionCall :: "string \<Rightarrow> node \<Rightarrow> bool" where
  "isUnsupportedTestFunctionCall testFunctionName
       (CallExpression (MemberExpression (Identifier obj) (Identifier prop)) args) =
     (obj = testFunctionName \<and> prop \<in> set unsupportedTestFunctionProperties)"
| "isUnsupportedTestFunctionCall testFunctionName _ = False"

text \<open>\<^verbatim>\<open>p.value.callee.property.name\<close> of a matched call.\<close>

fun calleePropertyName :: "node \<Rightarrow> string" where
  "calleePropertyName (CallExpression (MemberExpression ob (Identifier prop)) args) = prop"
| "calleePropertyName _ = ''undefined''"

definition unsupportedTWarning :: "node \<Rightarrow> string" where
  "unsupportedTWarning p =
     (let propertyName = calleePropertyName p in
      if contains (toLowerCase propertyName) ''looseequal''
      then quoted propertyName @ '' is currently not supported. Try the stricter ''
             @ quoted ''toEqual'' @ '' or '' @ quoted ''not.toEqual''
      else quoted propertyName @ '' is currently not supported'')"

definition unsupportedTestFunctionWarning :: "node \<Rightarrow> string" where
  "unsupportedTestFunctionWarning p = quoted (calleePropertyName p) @ '' is currently not supported''"

definition detectUnsupportedFeatures :: "string \<Rightarrow> node \<Rightarrow> string list" where
  "detectUnsupportedFeatures testFunctionName ast =
     map unsupportedTWarning (find isUnsupportedTCall ast)
       @ map unsupportedTestFunctionWarning
           (find (isUnsupportedTestFunctionCall testFunctionName) ast)"

section \<open>Sequencing of steps that may throw\<close>

definition andThen :: "error + 'a \<Rightarrow> ('a \<Rightarrow> error + 'b) \<Rightarrow> error + 'b" where
  "andThen r f = (case r of Inl e \<Rightarrow> Inl e | Inr v \<Rightarrow> f v)"

section \<open>updateAssertions\<close>

text \<open>
  \<^verbatim>\<open>ast.find(...)\<close> collects every matching call before the first one is replaced, and
  \<^verbatim>\<open>replaceWith\<close> writes the new expression into the slot that held the call when it was
  found. The new expression takes over the argument nodes \<^verbatim>\<open>args[0]\<close> and \<^verbatim>\<open>args[1]\<close>
  themselves. So a matching call that is a direct argument of another matching call is
  still handed to the callback (which may throw), but its replacement lands in the argument
  array of the call that has already been replaced; the argument node stays a call, and
  only what lies below it is rewritten. \<open>updateAssertions\<close> is the pass at a node whose
  slot is part of the tree, \<open>updateAssertions_arg\<close> at a direct argument of a matching call.
\<close>

fun updateAssertions :: "node \<Rightarrow> error + node"
  and updateAssertions_list :: "node list \<Rightarrow> error + node list"
  and updateAssertions_arg :: "node \<Rightarrow> error + node"
  and updateAssertions_args :: "node list \<Rightarrow> error + node list" where
  "updateAssertions (Identifier x) = Inr (Identifier x)"
| "updateAssertions (Literal l) = Inr (Literal l)"
| "updateAssertions (CallExpression c as) =
     (if isAssertionCall (CallExpression c as)
      then andThen (updateAssertions_args as) (\<lambda>as'. updateAssertion (CallExpression c as'))
      else andThen (updateAssertions c) (\<lambda>c'.
           andThen (updateAssertions_list as) (\<lambda>as'. Inr (CallExpression c' as'))))"
| "updateAssertions (MemberExpression ob pr) =
     andThen (updateAssertions ob) (\<lambda>ob'.
     andThen (updateAssertions pr) (\<lambda>pr'. Inr (MemberExpression ob' pr')))"
| "updateAssertions (Function ty i ps b e) =
     andThen (updateAssertions i) (\<lambda>i'.
     andThen (updateAssertions_list ps) (\<lambda>ps'.
     andThen (updateAssertions b) (\<lambda>b'. Inr (Function ty i' ps' b' e))))"
| "updateAssertions (ObjectExpression ps) =
     andThen (updateAssertions_list ps) (\<lambda>ps'. Inr (ObjectExpression ps'))"
| "updateAssertions (Property k v) =
     andThen (updateAssertions k) (\<lambda>k'.
     andThen (updateAssertions v) (\<lambda>v'. Inr (Property k' v')))"
| "updateAssertions (ExpressionStatement e) =
     andThen (updateAssertions e) (\<lambda>e'. Inr (ExpressionStatement e'))"
| "updateAssertions (BlockStatement ss) =
     andThen (updateAssertions_list ss) (\<lambda>ss'. Inr (BlockStatement ss'))"
| "updateAssertions (VariableDeclaration ds) =
     andThen (updateAssertions_list ds) (\<lambda>ds'. Inr (VariableDeclaration ds'))"
| "updateAssertions (VariableDeclarator i e) =
     andThen (updateAssertions i) (\<lambda>i'.
     andThen (updateAssertions e) (\<lambda>e'. Inr (VariableDeclarator i' e')))"
| "updateAssertions (ImportDeclaration ss src) =
     andThen (updateAssertions_list ss) (\<lambda>ss'.
     andThen (updateAssertions src) (\<lambda>src'. Inr (ImportDeclaration ss' src')))"
| "updateAssertions (Program ss) =
     andThen (updateAssertions_list ss) (\<lambda>ss'. Inr (Program ss'))"
| "updateAssertions (RawString s) = Inr (RawString s)"
| "updateAssertions Absent = Inr Absent"
| "updateAssertions (Other ty cs) =
     andThen (updateAssertions_list cs) (\<lambda>cs'. Inr (Other ty cs'))"
| "updateAssertions_list [] = Inr []"
| "updateAssertions_list (n # ns) =
     andThen (updateAssertions n) (\<lambda>n'.
     andThen (updateAssertions_list ns) (\<lambda>ns'. Inr (n' # ns')))"
| "updateAssertions_arg (CallExpression c as) =
     (if isAssertionCall (CallExpression c as)
      then andThen (updateAssertion (CallExpression c as)) (\<lambda>discarded.
           andThen (updateAssertions_list as) (\<lambda>as'. Inr (CallExpression c as')))
      else updateAssertions (CallExpression c as))"
| "updateAssertions_arg n = updateAssertions n"
| "updateAssertions_args [] = Inr []"
| "updateAssertions_args (n # ns) =
     andThen (updateAssertions_arg n) (\<lambda>n'.
     andThen (updateAssertions_args ns) (\<lambda>ns'. Inr (n' # ns')))"

section \<open>updateTapeComments\<close>

fun isCommentCall :: "node \<Rightarrow> bool" where
  "isCommentCall (CallExpression (MemberExpression (Identifier obj) (Identifier prop)) args) =
     (obj = ''t'' \<and> prop = ''comment'')"
| "isCommentCall _ = False"

text \<open>\<^verbatim>\<open>p.node.callee = 'console.log'\<close>: the callee slot receives a string, not a node.\<close>

fun updateTapeComments :: "node \<Rightarrow> node"
  and updateTapeComments_list :: "node list \<Rightarrow> node list" where
  "updateTapeComments (Identifier x) = Identifier x"
| "updateTapeComments (Literal l) = Literal l"
| "updateTapeComments (CallExpression c as) =
     (if isCommentCall (CallExpression c as)
      then CallExpression (RawString ''console.log'') (updateTapeComments_list as)
      else CallExpression (updateTapeComments c) (updateTapeComments_list as))"
| "updateTapeComments (MemberExpression ob pr) =
     MemberExpression (updateTapeComments ob) (updateTapeComments pr)"
| "updateTapeComments (Function ty i ps b e) =
     Function ty (updateTapeComments i) (updateTapeComments_list ps) (updateTapeComments b) e"
| "updateTapeComments (ObjectExpression ps) = ObjectExpression (updateTapeComments_list ps)"
| "updateTapeComments (Property k v) = Property (updateTapeComments k) (updateTapeComments v)"
| "updateTapeComments (ExpressionStatement e) = ExpressionStatement (updateTapeComments e)"
| "updateTapeComments (BlockStatement ss) = BlockStatement (updateTapeComments_list ss)"
| "updateTapeComments (VariableDeclaration ds) = VariableDeclaration (updateTapeComments_list ds)"
| "updateTapeComments (VariableDeclarator i e) =
     VariableDeclarator (updateTapeComments i) (updateTapeComments e)"
| "updateTapeComments (ImportDeclaration ss src) =
     ImportDeclaration (updateTapeComments_list ss) (updateTapeComments src)"
| "updateTapeComments (Program ss) = Program (updateTapeComments_list ss)"
| "updateTapeComments (RawString s) = RawString s"
| "updateTapeComments Absent = Absent"
| "updateTapeComments (Other ty cs) = Other ty (updateTapeComments_list cs)"
| "updateTapeComments_list [] = []"
| "updateTapeComments_list (n # ns) = updateTapeComments n # updateTapeComments_list ns"

section \<open>rewriteTestCallExpression\<close>

subsection \<open>Removal of \<^verbatim>\<open>t.end\<close> calls\<close>

fun isEndCall :: "node \<Rightarrow> bool" where
  "isEndCall (CallExpression (MemberExpression (Identifier obj) (Identifier prop)) args) =
     (obj = ''t'' \<and> prop = ''end'')"
| "isEndCall _ = False"

text \<open>
  The ancestors of a node are listed nearest first: \<^verbatim>\<open>pEnd.parent\<close>, then
  \<^verbatim>\<open>pEnd.parent.parent\<close>, and so on (\<^verbatim>\<open>parent\<close> is the nearest enclosing node; arrays
  are skipped). \<open>inTestScope\<close> is the test of the filter callback:
  \<^verbatim>\<open>outerParent.params && outerParent.params[0] && outerParent.params[0].name === 't'\<close>
  with \<^verbatim>\<open>outerParent = pEnd.parent.parent.parent.node\<close>. In the tree of a parsed file a
  call below a test call has at least three ancestors (the root \<open>Program\<close> hangs below the
  parser's \<^verbatim>\<open>File\<close> node); a shorter list has no third ancestor with parameters.
\<close>

fun inTestScope :: "node list \<Rightarrow> bool" where
  "inTestScope (parent # grandParent # outerParent # rest) =
     (case params_of outerParent of
        Some (p0 # ps) \<Rightarrow> name_of p0 = Some ''t''
      | _ \<Rightarrow> False)"
| "inTestScope _ = False"

fun slot :: "node option \<Rightarrow> node" where
  "slot None = Absent"
| "slot (Some n) = n"

text \<open>
  \<open>pruneEnds ancestors n\<close> is the \<^verbatim>\<open>find(...).filter(...)\<close> of lines 209-226 over the subtree
  \<open>n\<close>: every \<^verbatim>\<open>t.end(...)\<close> call that is \<open>inTestScope\<close> is pruned, and the others are
  counted (the \<^verbatim>\<open>size()\<close> of the filtered collection). The first component is what is left
  of \<open>n\<close>, \<open>None\<close> when \<open>n\<close> itself is removed from its parent.

  \<^verbatim>\<open>prune\<close> removes the node from its parent: an element of an array is spliced out, a
  field is deleted (\<open>Absent\<close>). It then cleans up: an expression statement that lost its
  expression is pruned as well, and so is a variable declaration that lost its last
  declarator. The calls are collected before the first one is pruned, so a call inside the
  arguments of a pruned call is still counted.
\<close>

fun pruneEnds :: "node list \<Rightarrow> node \<Rightarrow> node option \<times> nat"
  and pruneEnds_list :: "node list \<Rightarrow> node list \<Rightarrow> node list \<times> nat" where
  "pruneEnds anc (Identifier x) = (Some (Identifier x), 0)"
| "pruneEnds anc (Literal l) = (Some (Literal l), 0)"
| "pruneEnds anc (CallExpression c as) =
     (let (c', k1) = pruneEnds (CallExpression c as # anc) c;
          (as', k2) = pruneEnds_list (CallExpression c as # anc) as
      in if isEndCall (CallExpression c as)
         then (if inTestScope anc then (None, k1 + k2)
               else (Some (CallExpression (slot c') as'), Suc (k1 + k2)))
         else (Some (CallExpression (slot c') as'), k1 + k2))"
| "pruneEnds anc (MemberExpression ob pr) =
     (let (ob', k1) = pruneEnds (MemberExpression ob pr # anc) ob;
          (pr', k2) = pruneEnds (MemberExpression ob pr # anc) pr
      in (Some (MemberExpression (slot ob') (slot pr')), k1 + k2))"
| "pruneEnds anc (Function ty i ps b e) =
     (let (i', k1) = pruneEnds (Function ty i ps b e # anc) i;
          (ps', k2) = pruneEnds_list (Function ty i ps b e # anc) ps;
          (b', k3) = pruneEnds (Function ty i ps b e # anc) b
      in (Some (Function ty (slot i') ps' (slot b') e), k1 + k2 + k3))"
| "pruneEnds anc (ObjectExpression ps) =
     (let (ps', k) = pruneEnds_list (ObjectExpression ps # anc) ps
      in (Some (ObjectExpression ps'), k))"
| "pruneEnds anc (Property k v) =
     (let (k', k1) = pruneEnds (Property k v # anc) k;
          (v', k2) = pruneEnds (Property k v # anc) v
      in (Some (Property (slot k') (slot v')), k1 + k2))"
| "pruneEnds anc (ExpressionStatement e) =
     (let (e', k) = pruneEnds (ExpressionStatement e # anc) e
      in case e' of
           None \<Rightarrow> (None, k)
         | Some e'' \<Rightarrow> (Some (ExpressionStatement e''), k))"
| "pruneEnds anc (BlockStatement ss) =
     (let (ss', k) = pruneEnds_list (BlockStatement ss # anc) ss
      in (Some (BlockStatement ss'), k))"
| "pruneEnds anc (VariableDeclaration ds) =
     (let (ds', k) = pruneEnds_list (VariableDeclaration ds # anc) ds
      in if ds' = [] \<and> ds \<noteq> [] then (None, k) else (Some (VariableDeclaration ds'), k))"
| "pruneEnds anc (VariableDeclarator i e) =
     (let (i', k1) = pruneEnds (VariableDeclarator i e # anc) i;
          (e', k2) = pruneEnds (VariableDeclarator i e # anc) e
      in (Some (VariableDeclarator (slot i') (slot e')), k1 + k2))"
| "pruneEnds anc (ImportDeclaration ss src) =
     (let (ss', k1) = pruneEnds_list (ImportDeclaration ss src # anc) ss;
          (src', k2) = pruneEnds (ImportDeclaration ss src # anc) src
      in (Some (ImportDeclaration ss' (slot src')), k1 + k2))"
| "pruneEnds anc (Program ss) =
     (let (ss', k) = pruneEnds_list (Program ss # anc) ss
      in (Some (Program ss'), k))"
| "pruneEnds anc (RawString s) = (Some (RawString s), 0)"
| "pruneEnds anc Absent = (Some Absent, 0)"
| "pruneEnds anc (Other ty cs) =
     (let (cs', k) = pruneEnds_list (Other ty cs # anc) cs
      in (Some (Other ty cs'), k))"
| "pruneEnds_list anc [] = ([], 0)"
| "pruneEnds_list anc (n # ns) =
     (let (n', k1) = pruneEnds anc n;
          (ns', k2) = pruneEnds_list anc ns
      in (case n' of None \<Rightarrow> ns' | Some m \<Rightarrow> m # ns', k1 + k2))"

subsection \<open>The callback of the pass\<close>

text \<open>\<^verbatim>\<open>callee.name = x\<close> on the identifier that is the callee of a matched call.\<close>

fun setName :: "node \<Rightarrow> string \<Rightarrow> node" where
  "setName (Identifier old) x = Identifier x"
| "setName n x = n"

fun isObjectExpression :: "node \<Rightarrow> bool" where
  "isObjectExpression (ObjectExpression ps) = True"
| "isObjectExpression _ = False"

text \<open>
  One round of \<^verbatim>\<open>a.properties.forEach(tapeOption => ...)\<close> (lines 235-245) on the callee
  and the warnings logged so far. Reading \<^verbatim>\<open>tapeOption.key.name\<close> or
  \<^verbatim>\<open>tapeOption.value.value\<close> throws when the element has no key or no value.
\<close>

fun tapeOption :: "node \<Rightarrow> node \<times> string list \<Rightarrow> error + node \<times> string list" where
  "tapeOption (Property k v) (callee, ws) =
     (if k = Absent \<or> v = Absent then Inl TypeError
      else
        (let tapeOptionKey = name_of k;
             callee' =
               (if tapeOptionKey = Some ''skip'' \<and> v = Literal (LBoolean True)
                then setName callee ''test.skip'' else callee);
             ws' =
               (if tapeOptionKey = Some ''timeout''
                then ws @ [quoted ''timeout'' @ '' option is currently not supported'']
                else ws)
         in Inr (callee', ws')))"
| "tapeOption n st = Inl TypeError"

fun tapeOptions :: "node list \<Rightarrow> node \<times> string list \<Rightarrow> error + node \<times> string list" where
  "tapeOptions [] st = Inr st"
| "tapeOptions (pr # prs) st = andThen (tapeOption pr st) (tapeOptions prs)"

text \<open>\<^verbatim>\<open>p.value.arguments.forEach(a => ...)\<close> (lines 233-249), without the filtering.\<close>

fun convertOptions :: "node list \<Rightarrow> node \<times> string list \<Rightarrow> error + node \<times> string list" where
  "convertOptions [] st = Inr st"
| "convertOptions (ObjectExpression prs # as) st = andThen (tapeOptions prs st) (convertOptions as)"
| "convertOptions (Absent # as) st = Inl TypeError"
| "convertOptions (a # as) st = convertOptions as st"

text \<open>
  Lines 256-266 on the last argument: an arrow function is rebuilt around its body with
  the one parameter \<^verbatim>\<open>j.identifier('()')\<close>, a function expression has its parameter list
  overwritten with \<^verbatim>\<open>[j.identifier('')]\<close>, anything else is left alone.
\<close>

fun stripParams :: "node \<Rightarrow> error + node" where
  "stripParams (Function ty i ps b e) =
     (if ty = ''ArrowFunctionExpression''
      then j_arrowFunctionExpression [j_identifier ''()''] b False
      else if ty = ''FunctionExpression''
      then Inr (Function ty i [j_identifier ''''] b e)
      else Inr (Function ty i ps b e))"
| "stripParams Absent = Inl TypeError"
| "stripParams n = Inr n"

definition endWarning :: string where
  "endWarning = ''t.end is currently not supported in callbacks (maybe return a promise)''"

text \<open>
  The \<^verbatim>\<open>forEach\<close> callback of \<^verbatim>\<open>rewriteTestCallExpression\<close> (lines 208-267) on a matched
  call \<open>p\<close> with the given ancestors: the new call and the warnings it logs, or the error
  it throws. Reading \<^verbatim>\<open>lastArg.type\<close> throws when the argument list is empty.
\<close>

definition rewriteTestCall :: "node list \<Rightarrow> node \<Rightarrow> error + node \<times> string list" where
  "rewriteTestCall anc p =
     (case pruneEnds anc p of
        (Some (CallExpression callee args), deep) \<Rightarrow>
          (let containsDeepEndFunction = (deep > 0);
               ws = (if containsDeepEndFunction then [endWarning] else [])
           in case convertOptions args (callee, ws) of
                Inl err \<Rightarrow> Inl err
              | Inr (callee1, ws1) \<Rightarrow>
                  (let args1 = filter (\<lambda>pa. \<not> isObjectExpression pa) args;
                       callee2 =
                         (if name_of callee1 \<noteq> Some ''xit'' then setName callee1 ''test''
                          else callee1)
                   in if args1 = [] then Inl TypeError
                      else
                        (case stripParams (last args1) of
                           Inl err \<Rightarrow> Inl err
                         | Inr lastArg \<Rightarrow>
                             Inr (CallExpression callee2 (butlast args1 @ [lastArg]), ws1))))
      | other \<Rightarrow> Inl TypeError)"

subsection \<open>The pass\<close>

text \<open>
  The number of call expressions in a tree. The callback never adds one, which is why
  following the calls below a call that has been rewritten comes to an end.
\<close>

fun calls :: "node \<Rightarrow> nat"
  and calls_list :: "node list \<Rightarrow> nat" where
  "calls (Identifier x) = 0"
| "calls (Literal l) = 0"
| "calls (CallExpression c as) = Suc (calls c + calls_list as)"
| "calls (MemberExpression ob pr) = calls ob + calls pr"
| "calls (Function ty i ps b e) = calls i + calls_list ps + calls b"
| "calls (ObjectExpression ps) = calls_list ps"
| "calls (Property k v) = calls k + calls v"
| "calls (ExpressionStatement e) = calls e"
| "calls (BlockStatement ss) = calls_list ss"
| "calls (VariableDeclaration ds) = calls_list ds"
| "calls (VariableDeclarator i e) = calls i + calls e"
| "calls (ImportDeclaration ss src) = calls_list ss + calls src"
| "calls (Program ss) = calls_list ss"
| "calls (RawString s) = 0"
| "calls Absent = 0"
| "calls (Other ty cs) = calls_list cs"
| "calls_list [] = 0"
| "calls_list (n # ns) = calls n + calls_list ns"

lemma calls_pruneEnds:
  "pruneEnds anc n = (r, k) \<Longrightarrow> calls (slot r) \<le> calls n"
  "pruneEnds_list anc ns = (rs, k) \<Longrightarrow> calls_list rs \<le> calls_list ns"
proof (induction n and ns arbitrary: anc r k and anc rs k rule: calls_calls_list.induct)
  case (3 c as)
  then show ?case
    by (fastforce simp: Let_def split: prod.splits if_splits)
next
  case (18 n ns)
  then show ?case
    by (fastforce simp: Let_def split: prod.splits option.splits)
qed (fastforce simp: Let_def split: prod.splits option.splits if_splits)+

lemma calls_list_filter: "calls_list (filter P xs) \<le> calls_list xs"
  by (induction xs) auto

lemma calls_stripParams: "stripParams n = Inr m \<Longrightarrow> calls m \<le> calls n"
  by (cases n) (auto simp: j_arrowFunctionExpression_def j_identifier_def split: if_splits)

lemma calls_list_append: "calls_list (xs @ ys) = calls_list xs + calls_list ys"
  by (induction xs) auto

lemma calls_list_butlast:
  "xs \<noteq> [] \<Longrightarrow> calls_list (butlast xs) + calls (last xs) = calls_list xs"
  by (induction xs) auto

lemma calls_rewriteTestCall:
  assumes "rewriteTestCall anc (CallExpression c as) = Inr (CallExpression c' as', ws)"
  shows "calls_list as' \<le> calls_list as"
proof -
  obtain r deep where pr: "pruneEnds anc (CallExpression c as) = (r, deep)"
    by (cases "pruneEnds anc (CallExpression c as)")
  from assms pr obtain callee args where r: "r = Some (CallExpression callee args)"
    by (auto simp: rewriteTestCall_def split: option.splits node.splits)
  have "args = fst (pruneEnds_list (CallExpression c as # anc) as)"
    using pr r by (auto simp: Let_def split: prod.splits if_splits)
  then have le1: "calls_list args \<le> calls_list as"
    using calls_pruneEnds(2) [of "CallExpression c as # anc" as] by (metis prod.collapse)
  let ?args1 = "filter (\<lambda>pa. \<not> isObjectExpression pa) args"
  from assms pr r obtain lastArg where ne: "?args1 \<noteq> []"
    and sp: "stripParams (last ?args1) = Inr lastArg"
    and as': "as' = butlast ?args1 @ [lastArg]"
    by (auto simp: rewriteTestCall_def Let_def split: sum.splits if_splits prod.splits)
  have "calls_list as' = calls_list (butlast ?args1) + calls lastArg"
    by (simp add: as' calls_list_append)
  also have "\<dots> \<le> calls_list (butlast ?args1) + calls (last ?args1)"
    using calls_stripParams [OF sp] by simp
  also have "\<dots> = calls_list ?args1" using calls_list_butlast [OF ne] .
  also have "\<dots> \<le> calls_list args" by (rule calls_list_filter)
  finally show ?thesis using le1 by simp
qed

text \<open>
  \<^verbatim>\<open>ast.find(j.CallExpression, {callee: {name: testFunctionName}})\<close> collects every matching
  call of the tree before \<^verbatim>\<open>forEach\<close> runs the callback on the first one, and the callback
  then runs on all of them in pre-order, an outer call before the calls below it. The first
  callback that throws ends the pass.

  A call below a call that the callback has already visited is handed to the callback in
  the state in which that callback left it: the \<^verbatim>\<open>t.end\<close> calls that are \<open>inTestScope\<close>
  have been pruned from it. This is so also when the call is no longer part of the tree,
  because it stands in an options object that was filtered out, in the arguments of a
  pruned \<^verbatim>\<open>t.end(...)\<close> or in the parameters that were stripped: its path was collected
  with the others, and the callback still logs and throws there. \<open>nestedCallbacks\<close> runs
  the callback on every test call of such a subtree, in pre-order, and keeps the warnings.

  The ancestors of the call are listed as they were found. \<open>inTestScope\<close> reads nothing of
  them but the first parameter of a function; the parameters of a function are patterns as
  the parser gives them, with no call among them, so pruning leaves them alone. An earlier
  callback changes them in one way only: a function expression that is its last argument
  gets the parameter list with the one empty name. By then the \<^verbatim>\<open>t.end\<close> calls in the
  scope of that function are pruned, and the calls that are left were out of its scope
  before.
\<close>

fun nestedCallbacks :: "string \<Rightarrow> node list \<Rightarrow> node \<Rightarrow> error + string list"
  and nestedCallbacks_list :: "string \<Rightarrow> node list \<Rightarrow> node list \<Rightarrow> error + string list" where
  "nestedCallbacks tfn anc (Identifier x) = Inr []"
| "nestedCallbacks tfn anc (Literal l) = Inr []"
| "nestedCallbacks tfn anc (CallExpression c as) =
     andThen
       (if isTestCall tfn (CallExpression c as)
        then (case rewriteTestCall anc (slot (fst (pruneEnds anc (CallExpression c as)))) of
                Inl err \<Rightarrow> Inl err
              | Inr (p', ws) \<Rightarrow> Inr ws)
        else Inr [])
       (\<lambda>ws.
     andThen (nestedCallbacks tfn (CallExpression c as # anc) c) (\<lambda>ws1.
     andThen (nestedCallbacks_list tfn (CallExpression c as # anc) as) (\<lambda>ws2.
       Inr (ws @ ws1 @ ws2))))"
| "nestedCallbacks tfn anc (MemberExpression ob pr) =
     andThen (nestedCallbacks tfn (MemberExpression ob pr # anc) ob) (\<lambda>ws1.
     andThen (nestedCallbacks tfn (MemberExpression ob pr # anc) pr) (\<lambda>ws2.
       Inr (ws1 @ ws2)))"
| "nestedCallbacks tfn anc (Function ty i ps b e) =
     andThen (nestedCallbacks tfn (Function ty i ps b e # anc) i) (\<lambda>ws1.
     andThen (nestedCallbacks_list tfn (Function ty i ps b e # anc) ps) (\<lambda>ws2.
     andThen (nestedCallbacks tfn (Function ty i ps b e # anc) b) (\<lambda>ws3.
       Inr (ws1 @ ws2 @ ws3))))"
| "nestedCallbacks tfn anc (ObjectExpression ps) =
     nestedCallbacks_list tfn (ObjectExpression ps # anc) ps"
| "nestedCallbacks tfn anc (Property k v) =
     andThen (nestedCallbacks tfn (Property k v # anc) k) (\<lambda>ws1.
     andThen (nestedCallbacks tfn (Property k v # anc) v) (\<lambda>ws2.
       Inr (ws1 @ ws2)))"
| "nestedCallbacks tfn anc (ExpressionStatement e) =
     nestedCallbacks tfn (ExpressionStatement e # anc) e"
| "nestedCallbacks tfn anc (BlockStatement ss) =
     nestedCallbacks_list tfn (BlockStatement ss # anc) ss"
| "nestedCallbacks tfn anc (VariableDeclaration ds) =
     nestedCallbacks_list tfn (VariableDeclaration ds # anc) ds"
| "nestedCallbacks tfn anc (VariableDeclarator i e) =
     andThen (nestedCallbacks tfn (VariableDeclarator i e # anc) i) (\<lambda>ws1.
     andThen (nestedCallbacks tfn (VariableDeclarator i e # anc) e) (\<lambda>ws2.
       Inr (ws1 @ ws2)))"
| "nestedCallbacks tfn anc (ImportDeclaration ss src) =
     andThen (nestedCallbacks_list tfn (ImportDeclaration ss src # anc) ss) (\<lambda>ws1.
     andThen (nestedCallbacks tfn (ImportDeclaration ss src # anc) src) (\<lambda>ws2.
       Inr (ws1 @ ws2)))"
| "nestedCallbacks tfn anc (Program ss) = nestedCallbacks_list tfn (Program ss # anc) ss"
| "nestedCallbacks tfn anc (RawString s) = Inr []"
| "nestedCallbacks tfn anc Absent = Inr []"
| "nestedCallbacks tfn anc (Other ty cs) = nestedCallbacks_list tfn (Other ty cs # anc) cs"
| "nestedCallbacks_list tfn anc [] = Inr []"
| "nestedCallbacks_list tfn anc (n # ns) =
     andThen (nestedCallbacks tfn anc n) (\<lambda>ws1.
     andThen (nestedCallbacks_list tfn anc ns) (\<lambda>ws2.
       Inr (ws1 @ ws2)))"

text \<open>
  The tree that the callbacks leave below a call that has been rewritten: every test call
  that is still part of the tree has been rewritten in place by its own callback, an outer
  call before the calls in the arguments it has kept. The errors and the warnings of these
  callbacks are those that \<open>nestedCallbacks\<close> has already met on the same calls, so only the
  tree is kept here; the pass asks for it when no callback has thrown, and a call whose
  callback throws stays as it is.
\<close>

function keptTree :: "string \<Rightarrow> node list \<Rightarrow> node \<Rightarrow> node"
  and keptTree_list :: "string \<Rightarrow> node list \<Rightarrow> node list \<Rightarrow> node list" where
  "keptTree tfn anc (Identifier x) = Identifier x"
| "keptTree tfn anc (Literal l) = Literal l"
| "keptTree tfn anc (CallExpression c as) =
     (if isTestCall tfn (CallExpression c as)
      then
        (case rewriteTestCall anc (CallExpression c as) of
           Inr (CallExpression c' as', ws) \<Rightarrow>
             CallExpression c' (keptTree_list tfn (CallExpression c' as' # anc) as')
         | other \<Rightarrow> CallExpression c as)
      else
        CallExpression (keptTree tfn (CallExpression c as # anc) c)
          (keptTree_list tfn (CallExpression c as # anc) as))"
| "keptTree tfn anc (MemberExpression ob pr) =
     MemberExpression (keptTree tfn (MemberExpression ob pr # anc) ob)
       (keptTree tfn (MemberExpression ob pr # anc) pr)"
| "keptTree tfn anc (Function ty i ps b e) =
     Function ty (keptTree tfn (Function ty i ps b e # anc) i)
       (keptTree_list tfn (Function ty i ps b e # anc) ps)
       (keptTree tfn (Function ty i ps b e # anc) b) e"
| "keptTree tfn anc (ObjectExpression ps) =
     ObjectExpression (keptTree_list tfn (ObjectExpression ps # anc) ps)"
| "keptTree tfn anc (Property k v) =
     Property (keptTree tfn (Property k v # anc) k) (keptTree tfn (Property k v # anc) v)"
| "keptTree tfn anc (ExpressionStatement e) =
     ExpressionStatement (keptTree tfn (ExpressionStatement e # anc) e)"
| "keptTree tfn anc (BlockStatement ss) =
     BlockStatement (keptTree_list tfn (BlockStatement ss # anc) ss)"
| "keptTree tfn anc (VariableDeclaration ds) =
     VariableDeclaration (keptTree_list tfn (VariableDeclaration ds # anc) ds)"
| "keptTree tfn anc (VariableDeclarator i e) =
     VariableDeclarator (keptTree tfn (VariableDeclarator i e # anc) i)
       (keptTree tfn (VariableDeclarator i e # anc) e)"
| "keptTree tfn anc (ImportDeclaration ss src) =
     ImportDeclaration (keptTree_list tfn (ImportDeclaration ss src # anc) ss)
       (keptTree tfn (ImportDeclaration ss src # anc) src)"
| "keptTree tfn anc (Program ss) = Program (keptTree_list tfn (Program ss # anc) ss)"
| "keptTree tfn anc (RawString s) = RawString s"
| "keptTree tfn anc Absent = Absent"
| "keptTree tfn anc (Other ty cs) = Other ty (keptTree_list tfn (Other ty cs # anc) cs)"
| "keptTree_list tfn anc [] = []"
| "keptTree_list tfn anc (n # ns) = keptTree tfn anc n # keptTree_list tfn anc ns"
  by pat_completeness auto
termination
  apply (relation "inv_image (less_than <*lex*> less_than)
    (\<lambda>x. case x of
       Inl (tfn, anc, n) \<Rightarrow> (calls n, size n)
     | Inr (tfn, anc, ns) \<Rightarrow> (calls_list ns, size_list size ns))")
  apply (auto dest: calls_rewriteTestCall)
  done

text \<open>The arguments of a rewritten call, with the test calls among them rewritten.\<close>

fun keptArguments :: "string \<Rightarrow> node list \<Rightarrow> node \<Rightarrow> node" where
  "keptArguments tfn anc (CallExpression c as) =
     CallExpression c (keptTree_list tfn (CallExpression c as # anc) as)"
| "keptArguments tfn anc n = n"

text \<open>
  The pass. The second argument lists the ancestors of the node, nearest first. On a
  matched call the callback runs first, on the call as the parser gave it; then the
  callbacks of all test calls that were found below it run, in pre-order; the result is the
  tree that they leave and the warnings in the order in which they were logged.
\<close>

fun rewriteTestCallExpression ::
    "string \<Rightarrow> node list \<Rightarrow> node \<Rightarrow> error + node \<times> string list"
  and rewriteTestCallExpression_list ::
    "string \<Rightarrow> node list \<Rightarrow> node list \<Rightarrow> error + node list \<times> string list" where
  "rewriteTestCallExpression tfn anc (Identifier x) = Inr (Identifier x, [])"
| "rewriteTestCallExpression tfn anc (Literal l) = Inr (Literal l, [])"
| "rewriteTestCallExpression tfn anc (CallExpression c as) =
     (if isTestCall tfn (CallExpression c as)
      then
        (case rewriteTestCall anc (CallExpression c as) of
           Inl err \<Rightarrow> Inl err
         | Inr (p', ws) \<Rightarrow>
             andThen (nestedCallbacks_list tfn (CallExpression c as # anc) (c # as))
               (\<lambda>ws'. Inr (keptArguments tfn anc p', ws @ ws')))
      else
        andThen (rewriteTestCallExpression tfn (CallExpression c as # anc) c) (\<lambda>(c', ws1).
        andThen (rewriteTestCallExpression_list tfn (CallExpression c as # anc) as) (\<lambda>(as', ws2).
          Inr (CallExpression c' as', ws1 @ ws2))))"
| "rewriteTestCallExpression tfn anc (MemberExpression ob pr) =
     andThen (rewriteTestCallExpression tfn (MemberExpression ob pr # anc) ob) (\<lambda>(ob', ws1).
     andThen (rewriteTestCallExpression tfn (MemberExpression ob pr # anc) pr) (\<lambda>(pr', ws2).
       Inr (MemberExpression ob' pr', ws1 @ ws2)))"
| "rewriteTestCallExpression tfn anc (Function ty i ps b e) =
     andThen (rewriteTestCallExpression tfn (Function ty i ps b e # anc) i) (\<lambda>(i', ws1).
     andThen (rewriteTestCallExpression_list tfn (Function ty i ps b e # anc) ps) (\<lambda>(ps', ws2).
     andThen (rewriteTestCallExpression tfn (Function ty i ps b e # anc) b) (\<lambda>(b', ws3).
       Inr (Function ty i' ps' b' e, ws1 @ ws2 @ ws3))))"
| "rewriteTestCallExpression tfn anc (ObjectExpression ps) =
     andThen (rewriteTestCallExpression_list tfn (ObjectExpression ps # anc) ps) (\<lambda>(ps', ws).
       Inr (ObjectExpression ps', ws))"
| "rewriteTestCallExpression tfn anc (Property k v) =
     andThen (rewriteTestCallExpression tfn (Property k v # anc) k) (\<lambda>(k', ws1).
     andThen (rewriteTestCallExpression tfn (Property k v # anc) v) (\<lambda>(v', ws2).
       Inr (Property k' v', ws1 @ ws2)))"
| "rewriteTestCallExpression tfn anc (ExpressionStatement e) =
     andThen (rewriteTestCallExpression tfn (ExpressionStatement e # anc) e) (\<lambda>(e', ws).
       Inr (ExpressionStatement e', ws))"
| "rewriteTestCallExpression tfn anc (BlockStatement ss) =
     andThen (rewriteTestCallExpression_list tfn (BlockStatement ss # anc) ss) (\<lambda>(ss', ws).
       Inr (BlockStatement ss', ws))"
| "rewriteTestCallExpression tfn anc (VariableDeclaration ds) =
     andThen (rewriteTestCallExpression_list tfn (VariableDeclaration ds # anc) ds) (\<lambda>(ds', ws).
       Inr (VariableDeclaration ds', ws))"
| "rewriteTestCallExpression tfn anc (VariableDeclarator i e) =
     andThen (rewriteTestCallExpression tfn (VariableDeclarator i e # anc) i) (\<lambda>(i', ws1).
     andThen (rewriteTestCallExpression tfn (VariableDeclarator i e # anc) e) (\<lambda>(e', ws2).
       Inr (VariableDeclarator i' e', ws1 @ ws2)))"
| "rewriteTestCallExpression tfn anc (ImportDeclaration ss src) =
     andThen (rewriteTestCallExpression_list tfn (ImportDeclaration ss src # anc) ss) (\<lambda>(ss', ws1).
     andThen (rewriteTestCallExpression tfn (ImportDeclaration ss src # anc) src) (\<lambda>(src', ws2).
       Inr (ImportDeclaration ss' src', ws1 @ ws2)))"
| "rewriteTestCallExpression tfn anc (Program ss) =
     andThen (rewriteTestCallExpression_list tfn (Program ss # anc) ss) (\<lambda>(ss', ws).
       Inr (Program ss', ws))"
| "rewriteTestCallExpression tfn anc (RawString s) = Inr (RawString s, [])"
| "rewriteTestCallExpression tfn anc Absent = Inr (Absent, [])"
| "rewriteTestCallExpression tfn anc (Other ty cs) =
     andThen (rewriteTestCallExpression_list tfn (Other ty cs # anc) cs) (\<lambda>(cs', ws).
       Inr (Other ty cs', ws))"
| "rewriteTestCallExpression_list tfn anc [] = Inr ([], [])"
| "rewriteTestCallExpression_list tfn anc (n # ns) =
     andThen (rewriteTestCallExpression tfn anc n) (\<lambda>(n', ws1).
     andThen (rewriteTestCallExpression_list tfn anc ns) (\<lambda>(ns', ws2).
       Inr (n' # ns', ws1 @ ws2)))"

section \<open>Imports of a package\<close>

text \<open>
  \<^verbatim>\<open>hasRequireOrImport\<close> and \<^verbatim>\<open>removeRequireAndImport\<close> are imported from
  \<^verbatim>\<open>../utils/imports\<close>, which is not among the sources. They are modelled from section 4.1
  of the spec: given the tree, locate a require/import statement naming the source library;
  remove that statement; return the local binding name used for the top-level
  test-registration function. If no such statement exists, perform no mutation and signal
  absent.
\<close>

text \<open>
  Modelled from the spec: the package that an expression requires, for the missing
  \<^verbatim>\<open>../utils/imports\<close>. The expression is \<^verbatim>\<open>require('pkg')\<close>.
\<close>

definition requiredPackage :: "node \<Rightarrow> string option" where
  "requiredPackage e =
     (case e of
        CallExpression (Identifier f) [Literal (LString pkg)] \<Rightarrow>
          if f = ''require'' then Some pkg else None
      | _ \<Rightarrow> None)"

text \<open>
  Modelled from the spec: the package that a statement names, for the missing
  \<^verbatim>\<open>../utils/imports\<close>. A require/import statement is an import declaration, whose source
  is the package, or the declaration of one variable initialised with \<^verbatim>\<open>require('pkg')\<close>.
\<close>

definition statementPackage :: "node \<Rightarrow> string option" where
  "statementPackage s =
     (case s of
        ImportDeclaration specifiers (Literal (LString pkg)) \<Rightarrow> Some pkg
      | VariableDeclaration [VariableDeclarator i init] \<Rightarrow> requiredPackage init
      | _ \<Rightarrow> None)"

text \<open>
  Modelled from the spec: the local binding name of a require/import statement, for the
  missing \<^verbatim>\<open>../utils/imports\<close>: the local identifier of the first import specifier, or the
  declared variable.
\<close>

definition localName :: "node \<Rightarrow> string option" where
  "localName s =
     (case s of
        ImportDeclaration (Other kind (c # cs) # specifiers) src \<Rightarrow> name_of (last (c # cs))
      | VariableDeclaration [VariableDeclarator i init] \<Rightarrow> name_of i
      | _ \<Rightarrow> None)"

text \<open>
  Modelled from the spec: the missing \<^verbatim>\<open>hasRequireOrImport\<close> of \<^verbatim>\<open>../utils/imports\<close>.
  The file requires or imports the package when a statement of the program names it.
\<close>

definition hasRequireOrImport :: "node \<Rightarrow> string \<Rightarrow> bool" where
  "hasRequireOrImport ast pkg =
     (case ast of
        Program body \<Rightarrow> list_ex (\<lambda>s. statementPackage s = Some pkg) body
      | _ \<Rightarrow> False)"

text \<open>
  Modelled from the spec: the missing \<^verbatim>\<open>removeRequireAndImport\<close> of \<^verbatim>\<open>../utils/imports\<close>.
  With no statement naming the package the tree is left as it is and no name is returned.
  Otherwise the statements naming the package are removed, so that the file no longer
  requires or imports it, and the local binding name of the first is returned.
\<close>

definition removeRequireAndImport :: "node \<Rightarrow> string \<Rightarrow> string option \<times> node" where
  "removeRequireAndImport ast pkg =
     (case ast of
        Program body \<Rightarrow>
          (case filter (\<lambda>s. statementPackage s = Some pkg) body of
             [] \<Rightarrow> (None, ast)
           | s # ss \<Rightarrow> (localName s, Program (filter (\<lambda>s. statementPackage s \<noteq> Some pkg) body)))
      | _ \<Rightarrow> (None, ast))"

section \<open>detectProblematicPackages\<close>

definition detectProblematicPackages :: "node \<Rightarrow> string list" where
  "detectProblematicPackages ast =
     concat (map (\<lambda>pkg. if hasRequireOrImport ast pkg
                          then [''Usage of package '' @ quoted pkg
                                  @ '' might be incompatible with Jest'']
                          else [])
               [''proxyquire'', ''testdouble''])"

section \<open>tapeToJest\<close>

text \<open>
  \<^verbatim>\<open>transforms.forEach(t => t())\<close>: the passes in their order on the tree from which the
  import has been removed. The result is the final tree and the warnings in the order in
  which they were logged, or the error that aborted the run.
\<close>

definition transforms :: "string \<Rightarrow> node \<Rightarrow> error + node \<times> string list" where
  "transforms testFunctionName ast =
     (let ws1 = detectUnsupportedNaming testFunctionName ast;
          ws2 = detectUnsupportedFeatures testFunctionName ast
      in andThen (updateAssertions ast) (\<lambda>ast1.
           (let ast2 = updateTapeComments ast1
            in andThen (rewriteTestCallExpression testFunctionName [] ast2) (\<lambda>(ast3, ws3).
                 Inr (ast3, ws1 @ ws2 @ ws3 @ detectProblematicPackages ast3)))))"

text \<open>
  The exported function. The parser \<^verbatim>\<open>j(fileInfo.source)\<close>, the printer
  \<^verbatim>\<open>ast.toSource({quote})\<close> and \<^verbatim>\<open>detectQuoteStyle\<close> are not part of the sources; they are
  parameters. \<^verbatim>\<open>!testFunctionName\<close> holds of a missing name and of the empty string.
\<close>

definition tapeToJest ::
    "(string \<Rightarrow> error + node) \<Rightarrow> (node \<Rightarrow> string \<Rightarrow> string) \<Rightarrow> (node \<Rightarrow> string option)
       \<Rightarrow> string \<Rightarrow> error + string \<times> string list" where
  "tapeToJest parse toSource detectQuoteStyle source =
     andThen (parse source) (\<lambda>ast.
       (case removeRequireAndImport ast ''tape'' of
          (testFunctionName, ast0) \<Rightarrow>
            if testFunctionName = None \<or> testFunctionName = Some ''''
            then Inr (source, [])
            else
              andThen (transforms (the testFunctionName) ast0) (\<lambda>(ast', ws).
                (let quote = (case detectQuoteStyle ast' of None \<Rightarrow> ''single'' | Some q \<Rightarrow> q)
                 in Inr (toSource ast' quote, ws)))))"

section \<open>Shapes used in the statements\<close>

text \<open>\<^verbatim>\<open>t.name(args)\<close>.\<close>

abbreviation tCall :: "string \<Rightarrow> node list \<Rightarrow> node" where
  "tCall name args \<equiv>
     CallExpression (MemberExpression (Identifier ''t'') (Identifier name)) args"


text \<open>\<^verbatim>\<open>(params) => body\<close> as the parser gives it, and \<^verbatim>\<open>function (params) body\<close>.\<close>

abbreviation arrow :: "node list \<Rightarrow> node \<Rightarrow> node" where
  "arrow ps body \<equiv> Function ''ArrowFunctionExpression'' Absent ps body False"

abbreviation functionExpression :: "node list \<Rightarrow> node \<Rightarrow> node" where
  "functionExpression ps body \<equiv> Function ''FunctionExpression'' Absent ps body False"

text \<open>\<^verbatim>\<open>callee(args);\<close> as a statement.\<close>

abbreviation callStatement :: "node \<Rightarrow> node list \<Rightarrow> node" where
  "callStatement callee args \<equiv> ExpressionStatement (CallExpression callee args)"

text \<open>\<^verbatim>\<open>import name from 'pkg';\<close>.\<close>

abbreviation importDefault :: "string \<Rightarrow> string \<Rightarrow> node" where
  "importDefault name pkg \<equiv>
     ImportDeclaration [Other ''ImportDefaultSpecifier'' [Identifier name]] (Literal (LString pkg))"


section \<open>Facts about the rule tables\<close>







section \<open>The assertion rewriter: what each call becomes\<close>











section \<open>The test-registration rewriter on single calls\<close>

lemmas callback_defs =
  rewriteTestCall_def Let_def andThen_def j_arrowFunctionExpression_def j_identifier_def
  endWarning_def quoted_def dquote_def

lemmas pass_defs =
  transforms_def detectUnsupportedNaming_def detectUnsupportedFeatures_def
  detectProblematicPackages_def hasRequireOrImport_def statementPackage_def
  requiredPackage_def nth_arg_def unsupportedTProperties_def
  unsupportedTestFunctionProperties_def

text \<open>A step that throws ends the sequence; so does a step after it.\<close>

lemma andThen_throws:
  "isl r \<Longrightarrow> isl (andThen r f)"
  by (cases r) (simp_all add: andThen_def)

lemma andThen_throws_later:
  "(\<And>v. isl (f v)) \<Longrightarrow> isl (andThen r f)"
  by (cases r) (simp_all add: andThen_def)

lemma isl_andThen:
  "isl (andThen r f) = (isl r \<or> isl (f (projr r)))"
  by (cases r) (simp_all add: andThen_def)

lemma zero_argument_callback:
  "rewriteTestCall anc (CallExpression (Identifier tfn) []) = Inl TypeError"
  by (simp add: rewriteTestCall_def)

lemma zero_argument_nested:
  "CallExpression (Identifier tfn) [] \<in> set (find (isTestCall tfn) n)
     \<Longrightarrow> isl (nestedCallbacks tfn anc n)"
  "CallExpression (Identifier tfn) [] \<in> set (find_list (isTestCall tfn) ns)
     \<Longrightarrow> isl (nestedCallbacks_list tfn anc ns)"
proof (induction n and ns arbitrary: anc and anc rule: calls_calls_list.induct)
  case (3 c as)
  show ?case
  proof (cases "CallExpression c as = CallExpression (Identifier tfn) []")
    case True
    then show ?thesis
      by (simp add: zero_argument_callback andThen_def)
  next
    case False
    with 3 have "isl (nestedCallbacks tfn (CallExpression c as # anc) c) \<or>
                 isl (nestedCallbacks_list tfn (CallExpression c as # anc) as)"
      by (auto split: if_splits)
    then have "isl (andThen (nestedCallbacks tfn (CallExpression c as # anc) c) (\<lambda>ws1.
                 andThen (nestedCallbacks_list tfn (CallExpression c as # anc) as) (\<lambda>ws2.
                   Inr (ws @ ws1 @ ws2))))" for ws
      by (auto intro: andThen_throws andThen_throws_later)
    then show ?thesis
      by (simp add: andThen_throws_later)
  qed
qed (auto simp: isl_andThen case_prod_beta)

lemma zero_argument_pass:
  "CallExpression (Identifier tfn) [] \<in> set (find (isTestCall tfn) n)
     \<Longrightarrow> isl (rewriteTestCallExpression tfn anc n)"
  "CallExpression (Identifier tfn) [] \<in> set (find_list (isTestCall tfn) ns)
     \<Longrightarrow> isl (rewriteTestCallExpression_list tfn anc ns)"
proof (induction n and ns arbitrary: anc and anc rule: calls_calls_list.induct)
  case (3 c as)
  show ?case
  proof (cases "isTestCall tfn (CallExpression c as)")
    case matched: True
    show ?thesis
    proof (cases "rewriteTestCall anc (CallExpression c as)")
      case (Inl e)
      with matched show ?thesis by simp
    next
      case (Inr r)
      then have "CallExpression c as \<noteq> CallExpression (Identifier tfn) []"
        by (auto simp: zero_argument_callback)
      with 3 matched
      have "CallExpression (Identifier tfn) [] \<in> set (find_list (isTestCall tfn) (c # as))"
        by (auto split: if_splits)
      from zero_argument_nested(2) [OF this]
      have "isl (nestedCallbacks_list tfn (CallExpression c as # anc) (c # as))" .
      with matched Inr show ?thesis
        by (cases r) (simp add: andThen_throws)
    qed
  next
    case False
    with 3 have "isl (rewriteTestCallExpression tfn (CallExpression c as # anc) c) \<or>
                 isl (rewriteTestCallExpression_list tfn (CallExpression c as # anc) as)"
      by (auto split: if_splits)
    with False show ?thesis
      by (auto intro: andThen_throws andThen_throws_later)
  qed
qed (auto simp: isl_andThen case_prod_beta)

text \<open>
  C9. A matched call of the test function without arguments: its callback reads
  \<^verbatim>\<open>lastArg.type\<close> of an undefined \<^verbatim>\<open>lastArg\<close> and throws. The pass runs the callback on every
  call that \<^verbatim>\<open>find\<close> collects, so it throws whenever the tree holds such a call, wherever the
  call stands: also in the arguments of a \<^verbatim>\<open>t.end(...)\<close> that an earlier callback has pruned,
  as in \<^verbatim>\<open>test('x', t => { t.end(test()); })\<close>, and in an options object that has been
  removed, as in \<^verbatim>\<open>test('x', {skip: test()}, t => {})\<close>. (An earlier callback may be the one
  that throws.) The transform throws when the tree that the pass receives from
  \<^verbatim>\<open>updateAssertions\<close> and \<^verbatim>\<open>updateTapeComments\<close> holds such a call, so on the file
  \<^verbatim>\<open>import test from 'tape'; test();\<close>, whatever the binding is called. No warning is logged
  in place of the error: the result is the error alone.
\<close>

theorem zero_argument_test_call_aborts:
  "rewriteTestCall anc (CallExpression (Identifier tfn) []) = Inl TypeError \<and>
   (CallExpression (Identifier tfn) [] \<in> set (find (isTestCall tfn) ast) \<longrightarrow>
      (\<exists>e. rewriteTestCallExpression tfn anc ast = Inl e)) \<and>
   (updateAssertions ast = Inr ast1 \<and>
    CallExpression (Identifier tfn) [] \<in> set (find (isTestCall tfn) (updateTapeComments ast1)) \<longrightarrow>
      (\<exists>e. transforms tfn ast = Inl e)) \<and>
   rewriteTestCallExpression tfn anc (CallExpression (Identifier tfn) []) = Inl TypeError \<and>
   transforms tfn (Program [callStatement (Identifier tfn) []]) = Inl TypeError \<and>
   transforms ''test''
     (Program [callStatement (Identifier ''test'')
        [Literal (LString ''x''),
         arrow [Identifier ''t'']
           (BlockStatement
              [ExpressionStatement (tCall ''end'' [CallExpression (Identifier ''test'') []])])]])
   = Inl TypeError \<and>
   transforms ''test''
     (Program [callStatement (Identifier ''test'')
        [Literal (LString ''x''),
         ObjectExpression
           [Property (Identifier ''skip'') (CallExpression (Identifier ''test'') [])],
         arrow [Identifier ''t''] (BlockStatement [])]])
   = Inl TypeError \<and>
   (tfn \<noteq> '''' \<and>
    parse source = Inr (Program [importDefault tfn ''tape'', callStatement (Identifier tfn) []]) \<longrightarrow>
      tapeToJest parse toSource detectQuoteStyle source = Inl TypeError)"
proof -
  have cb: "rewriteTestCall anc (CallExpression (Identifier tfn) []) = Inl TypeError" for anc tfn
    by (rule zero_argument_callback)
  have pass: "\<exists>e. rewriteTestCallExpression tfn anc ast = Inl e"
    if "CallExpression (Identifier tfn) [] \<in> set (find (isTestCall tfn) ast)" for anc ast
    using zero_argument_pass(1) [OF that, of anc]
    by (cases "rewriteTestCallExpression tfn anc ast") simp_all
  have whole: "\<exists>e. transforms tfn ast = Inl e"
    if "updateAssertions ast = Inr ast1"
      and "CallExpression (Identifier tfn) []
             \<in> set (find (isTestCall tfn) (updateTapeComments ast1))"
  proof -
    from pass [OF that(2), of "[]"]
    obtain e where "rewriteTestCallExpression tfn [] (updateTapeComments ast1) = Inl e" ..
    with that(1) show ?thesis
      by (simp add: transforms_def andThen_def Let_def)
  qed
  have tr: "transforms tfn (Program [callStatement (Identifier tfn) []]) = Inl TypeError"
    by (simp add: pass_defs andThen_def cb)
  have pruned: "transforms ''test''
     (Program [callStatement (Identifier ''test'')
        [Literal (LString ''x''),
         arrow [Identifier ''t'']
           (BlockStatement
              [ExpressionStatement (tCall ''end'' [CallExpression (Identifier ''test'') []])])]])
   = Inl TypeError"
    by (simp add: pass_defs andThen_def callback_defs tapeToJestExpect_def)
  have options: "transforms ''test''
     (Program [callStatement (Identifier ''test'')
        [Literal (LString ''x''),
         ObjectExpression
           [Property (Identifier ''skip'') (CallExpression (Identifier ''test'') [])],
         arrow [Identifier ''t''] (BlockStatement [])]])
   = Inl TypeError"
    by (simp add: pass_defs andThen_def callback_defs)
  have rm: "removeRequireAndImport
              (Program [importDefault tfn ''tape'', callStatement (Identifier tfn) []]) ''tape''
            = (Some tfn, Program [callStatement (Identifier tfn) []])"
    by (simp add: removeRequireAndImport_def statementPackage_def localName_def)
  show ?thesis
    using pass whole pruned options
    by (simp add: cb tr rm tapeToJest_def andThen_def)
qed

theorem zero_argument_test_call_aborts_witness:
  "(\<exists>e. rewriteTestCallExpression ''test'' []
           (Program [callStatement (Identifier ''test'')
              [Literal (LString ''x''),
               arrow [Identifier ''t'']
                 (BlockStatement
                    [ExpressionStatement
                       (tCall ''end'' [CallExpression (Identifier ''test'') []])])]])
         = Inl e) \<and>
   tapeToJest
     (\<lambda>s. Inr (Program [importDefault ''test'' ''tape'', callStatement (Identifier ''test'') []]))
     (\<lambda>ast quote. ''printed'') (\<lambda>ast. None) ''import test from 'tape'; test();''
   = Inl TypeError"
  using zero_argument_test_call_aborts
    [where tfn = "''test''" and anc = "[]" and ast =
        "Program [callStatement (Identifier ''test'')
              [Literal (LString ''x''),
               arrow [Identifier ''t'']
                 (BlockStatement
                    [ExpressionStatement
                       (tCall ''end'' [CallExpression (Identifier ''test'') []])])]]"
      and parse =
        "\<lambda>s. Inr (Program [importDefault ''test'' ''tape'', callStatement (Identifier ''test'') []])"
      and source = "''import test from 'tape'; test();''"]
  by simp

text \<open>The callee that the callback leaves behind.\<close>

lemma tapeOption_callee:
  "tapeOption pr (c, ws) = Inr (c', ws') \<Longrightarrow> c' = c \<or> c' = setName c ''test.skip''"
  by (cases pr) (auto simp: Let_def split: if_splits)

lemma tapeOptions_callee:
  "tapeOptions prs (Identifier x, ws) = Inr (c', ws') \<Longrightarrow>
     c' = Identifier x \<or> c' = Identifier ''test.skip''"
proof (induction prs arbitrary: x ws)
  case Nil
  then show ?case by simp
next
  case (Cons pr prs)
  from Cons.prems obtain c1 ws1 where 1: "tapeOption pr (Identifier x, ws) = Inr (c1, ws1)"
    and 2: "tapeOptions prs (c1, ws1) = Inr (c', ws')"
    by (auto simp: andThen_def split: sum.splits)
  from tapeOption_callee [OF 1] have "c1 = Identifier x \<or> c1 = Identifier ''test.skip''"
    by auto
  then show ?case
    using 2 Cons.IH by auto
qed

lemma convertOptions_callee:
  "convertOptions as (Identifier x, ws) = Inr (c', ws') \<Longrightarrow>
     c' = Identifier x \<or> c' = Identifier ''test.skip''"
proof (induction as "(Identifier x, ws)" arbitrary: x ws rule: convertOptions.induct)
  case 1
  then show ?case by simp
next
  case (2 prs as)
  from "2.prems" obtain c1 ws1 where 1: "tapeOptions prs (Identifier x, ws) = Inr (c1, ws1)"
    and r: "convertOptions as (c1, ws1) = Inr (c', ws')"
    by (auto simp: andThen_def split: sum.splits)
  from tapeOptions_callee [OF 1] have "c1 = Identifier x \<or> c1 = Identifier ''test.skip''" .
  then show ?case
    using r "2.hyps" 1 by (auto simp: andThen_def split: sum.splits)
qed auto

lemma rewriteTestCall_callee:
  assumes "rewriteTestCall anc (CallExpression (Identifier tfn) args) = Inr (r, ws)"
  shows "\<exists>as'. r = CallExpression (Identifier (if tfn = ''xit'' then ''xit'' else ''test'')) as'
               \<or> r = CallExpression (Identifier ''test'') as'"
proof -
  let ?p = "CallExpression (Identifier tfn) args"
  obtain as1 k where pl: "pruneEnds_list (?p # anc) args = (as1, k)"
    by (cases "pruneEnds_list (?p # anc) args")
  have pr: "pruneEnds anc ?p = (Some (CallExpression (Identifier tfn) as1), k)"
    by (simp add: pl)
  from assms obtain callee1 ws1 where
    co: "convertOptions as1 (Identifier tfn, if 0 < k then [endWarning] else [])
         = Inr (callee1, ws1)"
    unfolding rewriteTestCall_def pr
    by (auto simp: Let_def split: sum.splits)
  from convertOptions_callee [OF co]
  have c1: "callee1 = Identifier tfn \<or> callee1 = Identifier ''test.skip''" .
  show ?thesis
    using assms c1 unfolding rewriteTestCall_def pr
    by (auto simp: Let_def co split: sum.splits if_splits)
qed

text \<open>
  C1 (what the code does). \<^verbatim>\<open>test('x', {skip: true}, t => {})\<close>: line 239 sets the callee
  name to \<^verbatim>\<open>test.skip\<close>, and line 252 overwrites it with \<^verbatim>\<open>test\<close>, since the name is not
  \<^verbatim>\<open>xit\<close>. The options argument is removed and the call that comes out is
  \<^verbatim>\<open>test('x', () => {})\<close>. No run of the callback leaves the skip variant: the callee it
  returns is \<^verbatim>\<open>test\<close>, or \<^verbatim>\<open>xit\<close> when that is the name of the binding.
\<close>

theorem skip_option_callee_overwritten:
  "rewriteTestCall anc
     (CallExpression (Identifier ''test'')
        [Literal (LString ''x''),
         ObjectExpression [Property (Identifier ''skip'') (Literal (LBoolean True))],
         arrow [Identifier ''t''] (BlockStatement [])])
   = Inr (CallExpression (Identifier ''test'')
            [Literal (LString ''x''), arrow [Identifier ''()''] (BlockStatement [])], []) \<and>
   transforms ''test''
     (Program [callStatement (Identifier ''test'')
        [Literal (LString ''x''),
         ObjectExpression [Property (Identifier ''skip'') (Literal (LBoolean True))],
         arrow [Identifier ''t''] (BlockStatement [])]])
   = Inr (Program [callStatement (Identifier ''test'')
            [Literal (LString ''x''), arrow [Identifier ''()''] (BlockStatement [])]], []) \<and>
   (rewriteTestCall anc (CallExpression (Identifier tfn) args) = Inr (r, ws) \<longrightarrow>
      (\<exists>as'. r = CallExpression (Identifier ''test'') as' \<or>
             (tfn = ''xit'' \<and> r = CallExpression (Identifier ''xit'') as')))"
proof -
  have cb: "rewriteTestCall anc
     (CallExpression (Identifier ''test'')
        [Literal (LString ''x''),
         ObjectExpression [Property (Identifier ''skip'') (Literal (LBoolean True))],
         arrow [Identifier ''t''] (BlockStatement [])])
   = Inr (CallExpression (Identifier ''test'')
            [Literal (LString ''x''), arrow [Identifier ''()''] (BlockStatement [])], [])" for anc
    by (simp add: callback_defs)
  have tr: "transforms ''test''
     (Program [callStatement (Identifier ''test'')
        [Literal (LString ''x''),
         ObjectExpression [Property (Identifier ''skip'') (Literal (LBoolean True))],
         arrow [Identifier ''t''] (BlockStatement [])]])
   = Inr (Program [callStatement (Identifier ''test'')
            [Literal (LString ''x''), arrow [Identifier ''()''] (BlockStatement [])]], [])"
    by (simp add: cb pass_defs andThen_def)
  have gen: "\<exists>as'. r = CallExpression (Identifier ''test'') as' \<or>
                  (tfn = ''xit'' \<and> r = CallExpression (Identifier ''xit'') as')"
    if "rewriteTestCall anc (CallExpression (Identifier tfn) args) = Inr (r, ws)"
    using rewriteTestCall_callee [OF that] by (auto split: if_splits)
  show ?thesis
    using cb tr gen by blast
qed

theorem skip_option_callee_overwritten_witness:
  "rewriteTestCall []
     (CallExpression (Identifier ''test'')
        [Literal (LString ''x''),
         ObjectExpression [Property (Identifier ''skip'') (Literal (LBoolean True))],
         arrow [Identifier ''t''] (BlockStatement [])])
   = Inr (CallExpression (Identifier ''test'')
            [Literal (LString ''x''), arrow [Identifier ''()''] (BlockStatement [])], [])"
  using skip_option_callee_overwritten [of "[]" "''test''" "[]" Absent "[]"]
  by simp

text \<open>
  C5 (what the code does). The filter looks at the third ancestor of the \<^verbatim>\<open>t.end\<close> call, not
  at the nearest enclosing function. \<^verbatim>\<open>test('x', t => { t.plan(1); t.end(); })\<close> loses the
  statement \<^verbatim>\<open>t.end();\<close>, and \<^verbatim>\<open>test('x', t => { setTimeout(() => t.end(), 0); })\<close> keeps
  the call and logs the warning. But in \<^verbatim>\<open>test('x', t => { if (c) { t.end(); } })\<close> the
  call stands in the test's own callback, its third ancestor is the \<^verbatim>\<open>if\<close> statement, and
  it is kept, with the warning about callbacks.
\<close>

theorem end_call_third_ancestor:
  "rewriteTestCall anc
     (CallExpression (Identifier ''test'')
        [Literal (LString ''x''),
         arrow [Identifier ''t'']
           (BlockStatement
              [ExpressionStatement (tCall ''plan'' [Literal (LNumber 1)]),
               ExpressionStatement (tCall ''end'' [])])])
   = Inr (CallExpression (Identifier ''test'')
            [Literal (LString ''x''),
             arrow [Identifier ''()'']
               (BlockStatement [ExpressionStatement (tCall ''plan'' [Literal (LNumber 1)])])],
          []) \<and>
   rewriteTestCall anc
     (CallExpression (Identifier ''test'')
        [Literal (LString ''x''),
         arrow [Identifier ''t'']
           (BlockStatement
              [callStatement (Identifier ''setTimeout'')
                 [Function ''ArrowFunctionExpression'' Absent [] (tCall ''end'' []) True,
                  Literal (LNumber 0)]])])
   = Inr (CallExpression (Identifier ''test'')
            [Literal (LString ''x''),
             arrow [Identifier ''()'']
               (BlockStatement
                  [callStatement (Identifier ''setTimeout'')
                     [Function ''ArrowFunctionExpression'' Absent [] (tCall ''end'' []) True,
                      Literal (LNumber 0)]])],
          [endWarning]) \<and>
   rewriteTestCall anc
     (CallExpression (Identifier ''test'')
        [Literal (LString ''x''),
         arrow [Identifier ''t'']
           (BlockStatement
              [Other ''IfStatement''
                 [Identifier ''c'', BlockStatement [ExpressionStatement (tCall ''end'' [])]]])])
   = Inr (CallExpression (Identifier ''test'')
            [Literal (LString ''x''),
             arrow [Identifier ''()'']
               (BlockStatement
                  [Other ''IfStatement''
                     [Identifier ''c'', BlockStatement [ExpressionStatement (tCall ''end'' [])]]])],
          [endWarning])"
  by (simp add: rewriteTestCall_def Let_def andThen_def j_arrowFunctionExpression_def
      j_identifier_def)

text \<open>The pass and the callback on the two shapes of a registration call.\<close>

lemma pass_on_member_call:
  "rewriteTestCallExpression tfn anc
     (CallExpression (MemberExpression (Identifier tfn) (Identifier variant))
        [Literal l, Function ty Absent [Identifier ''t''] b e])
   = andThen
       (rewriteTestCallExpression tfn
          (Function ty Absent [Identifier ''t''] b e
             # CallExpression (MemberExpression (Identifier tfn) (Identifier variant))
                 [Literal l, Function ty Absent [Identifier ''t''] b e]
             # anc) b)
       (\<lambda>(b', ws).
          Inr (CallExpression (MemberExpression (Identifier tfn) (Identifier variant))
                 [Literal l, Function ty Absent [Identifier ''t''] b' e], ws))"
  by (simp add: andThen_def split: sum.splits prod.splits)

lemma callback_on_function:
  assumes "rewriteTestCall anc (CallExpression (Identifier tfn) [Literal l, Function ty i ps b e])
           = Inr (r, ws)"
  shows "\<exists>last'. stripParams
                   (Function ty
                      (slot (fst (pruneEnds
                         (Function ty i ps b e
                            # CallExpression (Identifier tfn) [Literal l, Function ty i ps b e]
                            # anc) i)))
                      (fst (pruneEnds_list
                         (Function ty i ps b e
                            # CallExpression (Identifier tfn) [Literal l, Function ty i ps b e]
                            # anc) ps))
                      (slot (fst (pruneEnds
                         (Function ty i ps b e
                            # CallExpression (Identifier tfn) [Literal l, Function ty i ps b e]
                            # anc) b)))
                      e) = Inr last' \<and>
                r = CallExpression (Identifier (if tfn = ''xit'' then ''xit'' else ''test''))
                      [Literal l, last']"
proof -
  let ?F = "Function ty i ps b e"
  let ?C = "CallExpression (Identifier tfn) [Literal l, ?F]"
  obtain i' k1 where pi: "pruneEnds (?F # ?C # anc) i = (i', k1)"
    by (cases "pruneEnds (?F # ?C # anc) i")
  obtain ps' k2 where pps: "pruneEnds_list (?F # ?C # anc) ps = (ps', k2)"
    by (cases "pruneEnds_list (?F # ?C # anc) ps")
  obtain b' k3 where pb: "pruneEnds (?F # ?C # anc) b = (b', k3)"
    by (cases "pruneEnds (?F # ?C # anc) b")
  have pr: "pruneEnds anc ?C
            = (Some (CallExpression (Identifier tfn)
                       [Literal l, Function ty (slot i') ps' (slot b') e]), k1 + k2 + k3)"
    by (simp add: pi pps pb)
  show ?thesis
    using assms unfolding rewriteTestCall_def pr
    by (cases "stripParams (Function ty (slot i') ps' (slot b') e)")
       (auto simp: pi pps pb Let_def)
qed

text \<open>
  C7 (counterexample). \<^verbatim>\<open>test.only('name', t => {})\<close>: the callee is a member expression,
  the pass matches calls whose callee is the identifier \<^verbatim>\<open>test\<close>, and the whole transform
  leaves the statement as it is; the callback still has its parameter \<^verbatim>\<open>t\<close>.
\<close>

theorem only_variant_keeps_parameter:
  "transforms ''test''
     (Program [callStatement (MemberExpression (Identifier ''test'') (Identifier ''only''))
        [Literal (LString ''name''), arrow [Identifier ''t''] (BlockStatement [])]])
   = Inr (Program [callStatement (MemberExpression (Identifier ''test'') (Identifier ''only''))
        [Literal (LString ''name''), arrow [Identifier ''t''] (BlockStatement [])]], [])"
  by (simp add: pass_defs andThen_def)

text \<open>
  C7 (amended). A call \<^verbatim>\<open>tfn.variant(name, cb)\<close> is not matched by the pass: the callee and
  the parameter list of the callback stay, and the pass only goes on below the body of the
  callback. For a plain call \<^verbatim>\<open>tfn(name, cb)\<close> on which the callback does not throw, the
  callee is spelled \<^verbatim>\<open>test\<close> (a binding called \<^verbatim>\<open>xit\<close> keeps its name), an arrow function
  is rebuilt with the one parameter \<^verbatim>\<open>()\<close>, and a function expression gets the one
  parameter with the empty name; the body is what \<open>pruneEnds\<close> leaves of it.
\<close>

theorem registration_call_renaming:
  "\<not> isTestCall tfn (CallExpression (MemberExpression (Identifier tfn) (Identifier variant)) args) \<and>
   rewriteTestCallExpression tfn anc
     (CallExpression (MemberExpression (Identifier tfn) (Identifier variant))
        [Literal l, Function ty Absent [Identifier ''t''] b e])
   = andThen
       (rewriteTestCallExpression tfn
          (Function ty Absent [Identifier ''t''] b e
             # CallExpression (MemberExpression (Identifier tfn) (Identifier variant))
                 [Literal l, Function ty Absent [Identifier ''t''] b e]
             # anc) b)
       (\<lambda>(b', ws).
          Inr (CallExpression (MemberExpression (Identifier tfn) (Identifier variant))
                 [Literal l, Function ty Absent [Identifier ''t''] b' e], ws)) \<and>
   (rewriteTestCall anc
      (CallExpression (Identifier tfn) [Literal l, Function ''ArrowFunctionExpression'' i ps b e])
    = Inr (r, ws) \<longrightarrow>
      r = CallExpression (Identifier (if tfn = ''xit'' then ''xit'' else ''test''))
            [Literal l,
             arrow [Identifier ''()'']
               (slot (fst (pruneEnds
                  (Function ''ArrowFunctionExpression'' i ps b e
                     # CallExpression (Identifier tfn)
                         [Literal l, Function ''ArrowFunctionExpression'' i ps b e]
                     # anc) b)))]) \<and>
   (rewriteTestCall anc
      (CallExpression (Identifier tfn) [Literal l, Function ''FunctionExpression'' i ps b e])
    = Inr (r, ws) \<longrightarrow>
      r = CallExpression (Identifier (if tfn = ''xit'' then ''xit'' else ''test''))
            [Literal l,
             Function ''FunctionExpression''
               (slot (fst (pruneEnds
                  (Function ''FunctionExpression'' i ps b e
                     # CallExpression (Identifier tfn)
                         [Literal l, Function ''FunctionExpression'' i ps b e]
                     # anc) i)))
               [Identifier '''']
               (slot (fst (pruneEnds
                  (Function ''FunctionExpression'' i ps b e
                     # CallExpression (Identifier tfn)
                         [Literal l, Function ''FunctionExpression'' i ps b e]
                     # anc) b)))
               e])"
proof (intro conjI impI)
  show "\<not> isTestCall tfn
            (CallExpression (MemberExpression (Identifier tfn) (Identifier variant)) args)"
    by simp
next
  show "rewriteTestCallExpression tfn anc
     (CallExpression (MemberExpression (Identifier tfn) (Identifier variant))
        [Literal l, Function ty Absent [Identifier ''t''] b e])
   = andThen
       (rewriteTestCallExpression tfn
          (Function ty Absent [Identifier ''t''] b e
             # CallExpression (MemberExpression (Identifier tfn) (Identifier variant))
                 [Literal l, Function ty Absent [Identifier ''t''] b e]
             # anc) b)
       (\<lambda>(b', ws).
          Inr (CallExpression (MemberExpression (Identifier tfn) (Identifier variant))
                 [Literal l, Function ty Absent [Identifier ''t''] b' e], ws))"
    by (rule pass_on_member_call)
next
  assume "rewriteTestCall anc
      (CallExpression (Identifier tfn) [Literal l, Function ''ArrowFunctionExpression'' i ps b e])
    = Inr (r, ws)"
  from callback_on_function [OF this]
  show "r = CallExpression (Identifier (if tfn = ''xit'' then ''xit'' else ''test''))
            [Literal l,
             arrow [Identifier ''()'']
               (slot (fst (pruneEnds
                  (Function ''ArrowFunctionExpression'' i ps b e
                     # CallExpression (Identifier tfn)
                         [Literal l, Function ''ArrowFunctionExpression'' i ps b e]
                     # anc) b)))]"
    by (auto simp: j_arrowFunctionExpression_def j_identifier_def split: if_splits)
next
  assume "rewriteTestCall anc
      (CallExpression (Identifier tfn) [Literal l, Function ''FunctionExpression'' i ps b e])
    = Inr (r, ws)"
  from callback_on_function [OF this]
  show "r = CallExpression (Identifier (if tfn = ''xit'' then ''xit'' else ''test''))
            [Literal l,
             Function ''FunctionExpression''
               (slot (fst (pruneEnds
                  (Function ''FunctionExpression'' i ps b e
                     # CallExpression (Identifier tfn)
                         [Literal l, Function ''FunctionExpression'' i ps b e]
                     # anc) i)))
               [Identifier '''']
               (slot (fst (pruneEnds
                  (Function ''FunctionExpression'' i ps b e
                     # CallExpression (Identifier tfn)
                         [Literal l, Function ''FunctionExpression'' i ps b e]
                     # anc) b)))
               e]"
    by (auto simp: j_identifier_def split: if_splits)
qed

theorem registration_call_renaming_witness:
  "rewriteTestCall []
     (CallExpression (Identifier ''test'')
        [Literal (LString ''name''), arrow [Identifier ''t''] (BlockStatement [])])
   = Inr (CallExpression (Identifier ''test'')
        [Literal (LString ''name''), arrow [Identifier ''()''] (BlockStatement [])], []) \<and>
   rewriteTestCall []
     (CallExpression (Identifier ''test'')
        [Literal (LString ''name''), functionExpression [Identifier ''t''] (BlockStatement [])])
   = Inr (CallExpression (Identifier ''test'')
        [Literal (LString ''name''), functionExpression [Identifier ''''] (BlockStatement [])], [])"
  using registration_call_renaming
    [of "''test''" "''only''" "[]" "[]" "LString ''name''" "''ArrowFunctionExpression''"
        "BlockStatement []" False Absent "[Identifier ''t'']"]
  by (simp add: rewriteTestCall_def Let_def andThen_def j_arrowFunctionExpression_def
      j_identifier_def)

section \<open>Subtrees without a call expression\<close>








section \<open>Throws-family calls with extra arguments\<close>






section \<open>The gate of the transform\<close>

lemma removeRequireAndImport_absent:
  "\<not> hasRequireOrImport ast pkg \<Longrightarrow> removeRequireAndImport ast pkg = (None, ast)"
  by (cases ast)
     (auto simp: removeRequireAndImport_def hasRequireOrImport_def list_ex_iff filter_empty_conv
           split: list.splits)

text \<open>
  C4. A file whose tree holds no require or import of \<^verbatim>\<open>tape\<close>: the detector reports no
  binding and leaves the tree as it is, and the transform returns the source text it was
  given, with no warning.
\<close>

theorem no_import_returns_source:
  "parse source = Inr ast \<Longrightarrow> \<not> hasRequireOrImport ast ''tape'' \<Longrightarrow>
     removeRequireAndImport ast ''tape'' = (None, ast) \<and>
     tapeToJest parse toSource detectQuoteStyle source = Inr (source, [])"
  by (simp add: removeRequireAndImport_absent tapeToJest_def andThen_def)

theorem no_import_returns_source_witness:
  "tapeToJest
     (\<lambda>s. Inr (Program [callStatement (Identifier ''test'')
                  [Literal (LString ''x''), arrow [Identifier ''t''] (BlockStatement [])]]))
     (\<lambda>ast quote. ''printed'') (\<lambda>ast. None) ''test('x', t => {});''
   = Inr (''test('x', t => {});'', [])"
proof -
  have "\<not> hasRequireOrImport
          (Program [callStatement (Identifier ''test'')
             [Literal (LString ''x''), arrow [Identifier ''t''] (BlockStatement [])]]) ''tape''"
    by (simp add: hasRequireOrImport_def statementPackage_def)
  with no_import_returns_source
    [of "\<lambda>s. Inr (Program [callStatement (Identifier ''test'')
                  [Literal (LString ''x''), arrow [Identifier ''t''] (BlockStatement [])]])"
        "''test('x', t => {});''" _ "\<lambda>ast quote. ''printed''" "\<lambda>ast. None"]
  show ?thesis by simp
qed

end
